theory Spec2Isabelle
  imports Main "HOL-Library.Log_Nat"
begin

section \<open>JavaScript values used by the scheduler\<close>

text \<open>
  The engine lives in \<^verbatim>\<open>event_placer_v2/js/schedule.js\<close> (classes \<^verbatim>\<open>Random\<close> and
  \<^verbatim>\<open>Schedule\<close>) and \<^verbatim>\<open>event_placer_v2/js/models.js\<close> (classes \<^verbatim>\<open>Event\<close>,
  \<^verbatim>\<open>Location\<close>, \<^verbatim>\<open>Time\<close>). Numbers that the code computes with are integers
  (minutes, slot indices, seat counts, seeds), so they are modelled as \<^typ>\<open>int\<close>; the two
  places where IEEE double arithmetic differs from integer arithmetic (the product
  \<^verbatim>\<open>a * state\<close> of the generator, and division by \<^verbatim>\<open>interval = 0\<close>) are written out
  below. The values \<^verbatim>\<open>NaN\<close> that \<^verbatim>\<open>parseInt\<close> returns on malformed text are outside the
  model: a configuration is taken after parsing.

  The only exceptions the code can raise are the \<^verbatim>\<open>RangeError\<close> of \<^verbatim>\<open>new Array(n)\<close> on
  an invalid length and the \<^verbatim>\<open>TypeError\<close> of a property access on \<^verbatim>\<open>undefined\<close>.
\<close>

datatype js_error = RangeError | TypeError

text \<open>
  A JavaScript array: its \<^verbatim>\<open>length\<close> and the value stored under every integer key
  (\<open>None\<close> is \<^verbatim>\<open>undefined\<close>). A read outside the array gives \<^verbatim>\<open>undefined\<close>; a write at
  a key \<open>k \<ge> length\<close> extends the array, a write at a negative key stores a property and
  leaves the length alone.
\<close>

record 'a jsarray =
  len :: nat
  elem :: "int \<Rightarrow> 'a option"

definition new_Array_fill :: "nat \<Rightarrow> 'a \<Rightarrow> 'a jsarray" where
  "new_Array_fill n v = \<lparr>len = n, elem = (\<lambda>k. if 0 \<le> k \<and> k < int n then Some v else None)\<rparr>"

definition arr_set :: "'a jsarray \<Rightarrow> int \<Rightarrow> 'a option \<Rightarrow> 'a jsarray" where
  "arr_set A k v =
     \<lparr>len = (if int (len A) \<le> k then nat (k + 1) else len A), elem = (elem A)(k := v)\<rparr>"

definition arr_of_list :: "'a list \<Rightarrow> 'a jsarray" where
  "arr_of_list xs =
     \<lparr>len = length xs, elem = (\<lambda>k. if 0 \<le> k \<and> k < int (length xs) then Some (xs ! nat k) else None)\<rparr>"

definition arr_to_list :: "'a jsarray \<Rightarrow> 'a option list" where
  "arr_to_list A = map (\<lambda>k. elem A (int k)) [0..<len A]"

text \<open>\<^verbatim>\<open>String.prototype.startsWith\<close> and \<^verbatim>\<open>split(" ")\<close>.\<close>

fun startsWith :: "string \<Rightarrow> string \<Rightarrow> bool" where
  "startsWith s [] = True"
| "startsWith [] (p # ps) = False"
| "startsWith (c # cs) (p # ps) = (c = p \<and> startsWith cs ps)"

fun split_space :: "string \<Rightarrow> string list" where
  "split_space [] = [[]]"
| "split_space (c # cs) =
     (if c = CHR '' '' then [] # split_space cs
      else (case split_space cs of [] \<Rightarrow> [[c]] | w # ws \<Rightarrow> (c # w) # ws))"

text \<open>The \<open>k\<close>-th part of a split string, \<^verbatim>\<open>undefined\<close> when there is none.\<close>

definition part :: "string list \<Rightarrow> nat \<Rightarrow> string option" where
  "part ps k = (if k < length ps then Some (ps ! k) else None)"

text \<open>Decimal rendering of a counter, as the template literal \<^verbatim>\<open>`UN ${n}`\<close> does.\<close>

definition digit_char :: "nat \<Rightarrow> char" where
  "digit_char d = char_of (48 + d)"

fun string_of_nat :: "nat \<Rightarrow> string" where
  "string_of_nat n =
     (if n < 10 then [digit_char n] else string_of_nat (n div 10) @ [digit_char (n mod 10)])"

declare string_of_nat.simps [simp del]

text \<open>
  \<^verbatim>\<open>Math.floor(x / y)\<close> and \<^verbatim>\<open>Math.ceil(x / y)\<close> on integers with \<open>y \<noteq> 0\<close>: the quotient
  of two integers of this size is never close enough to a whole number for the rounding
  of the division to change its floor or ceiling. \<open>div\<close> on \<^typ>\<open>int\<close> rounds down for
  both signs of the divisor.
\<close>

definition floor_div :: "int \<Rightarrow> int \<Rightarrow> int" where
  "floor_div x y = x div y"

definition ceil_div :: "int \<Rightarrow> int \<Rightarrow> int" where
  "ceil_div x y = - ((- x) div y)"

section \<open>The seeded generator (class Random)\<close>

text \<open>
  \<^verbatim>\<open>this.m = 0x80000000; this.a = 1103515245; this.c = 12345\<close>.
\<close>

definition Random_m :: int where "Random_m = 2147483648"
definition Random_a :: int where "Random_a = 1103515245"
definition Random_c :: int where "Random_c = 12345"

text \<open>
  \<^verbatim>\<open>this.a * this.state\<close> can exceed \<open>2^53\<close>, where a double no longer holds every
  integer. \<open>round53\<close> is the IEEE rounding of an integer to the nearest double (53
  significant bits, ties to the even significand); a product or sum of two integer-valued
  doubles is this rounding of the exact result.
\<close>

definition round53 :: "int \<Rightarrow> int" where
  "round53 x =
     (if \<bar>x\<bar> < 2 ^ 53 then x
      else let q = 2 ^ nat (bitlen \<bar>x\<bar> - 53); lo = (x div q) * q; r = x - lo
           in if 2 * r < q then lo
              else if q < 2 * r then lo + q
              else if even (x div q) then lo else lo + q)"

text \<open>The remainder operator \<^verbatim>\<open>%\<close>: exact, with the sign of the dividend.\<close>

definition js_rem :: "int \<Rightarrow> int \<Rightarrow> int" where
  "js_rem x y = sgn x * (\<bar>x\<bar> mod \<bar>y\<bar>)"

record random =
  state :: int

text \<open>
  \<^verbatim>\<open>this.state = seed ? seed : Math.floor(Math.random() * (this.m - 1))\<close>. The seed is
  \<open>None\<close> when the caller passes none. The second argument is the value the expression
  \<^verbatim>\<open>Math.floor(Math.random() * (this.m - 1))\<close> takes in this run, the only input of the
  engine that is not under the caller's control.
\<close>

definition Random_new :: "int option \<Rightarrow> int \<Rightarrow> random" where
  "Random_new seed rnd =
     \<lparr>state = (case seed of None \<Rightarrow> rnd | Some s \<Rightarrow> if s \<noteq> 0 then s else rnd)\<rparr>"

definition nextInt :: "random \<Rightarrow> int \<times> random" where
  "nextInt rng =
     (let s = js_rem (round53 (round53 (Random_a * state rng) + Random_c)) Random_m
      in (s, rng\<lparr>state := s\<rparr>))"

text \<open>
  \<^verbatim>\<open>nextFloat\<close> is the quotient \<^verbatim>\<open>nextInt() / (m - 1)\<close>, kept here as the exact
  rational. The double the code gets is the nearest one to it; it is below 1, and at least
  0, exactly when the rational is, since 0 and 1 are doubles and the largest quotient below
  1 is \<open>1 - 1 / (m - 1)\<close>.
\<close>

definition nextFloat :: "random \<Rightarrow> rat \<times> random" where
  "nextFloat rng = (let (x, rng') = nextInt rng in (of_int x / of_int (Random_m - 1), rng'))"

text \<open>
  \<^verbatim>\<open>for (let i = array.length - 1; i > 0; i--) { j = Math.floor(this.nextFloat() * (i + 1));
  [array[i], array[j]] = [array[j], array[i]]; }\<close>
  The index \<open>j\<close> is the floor of the exact product; for arrays of fewer than \<open>2^20\<close>
  elements the floor of the doubles' product is the same number (the exact product is
  either whole or at least \<open>1 / (m - 1)\<close> away from a whole number, more than the two
  roundings can move it). Both reads of the swap come before both writes.
\<close>

definition swap :: "'a jsarray \<Rightarrow> int \<Rightarrow> int \<Rightarrow> 'a jsarray" where
  "swap A i j = (let aj = elem A j; ai = elem A i in arr_set (arr_set A i aj) j ai)"

fun shuffle_loop :: "nat \<Rightarrow> random \<times> 'a jsarray \<Rightarrow> random \<times> 'a jsarray" where
  "shuffle_loop 0 (rng, A) = (rng, A)"
| "shuffle_loop (Suc n) (rng, A) =
     (let (f, rng') = nextFloat rng;
          j = \<lfloor>f * of_int (int (Suc n) + 1)\<rfloor>
      in shuffle_loop n (rng', swap A (int (Suc n)) j))"

definition shuffle :: "random \<Rightarrow> 'a list \<Rightarrow> random \<times> 'a option list" where
  "shuffle rng xs =
     (let (rng', A) = shuffle_loop (length xs - 1) (rng, arr_of_list xs) in (rng', arr_to_list A))"

section \<open>Events, locations and the schedule\<close>

text \<open>
  Of \<^verbatim>\<open>Event\<close>, \<^verbatim>\<open>Location\<close> and \<^verbatim>\<open>Time\<close> the fields that \<^verbatim>\<open>schedule.js\<close> reads or writes.
  Events are objects that the grid and the work lists share by reference, so they live in a
  store, a function from object identities to records; a location is only read.
\<close>

record time =
  startMin :: int
  endMin :: int
  days :: "string list"

record event =
  seats :: int
  timeObj :: time
  pastLocationString :: string
  bldgCode :: string
  roomNumber :: string
  indices :: "(int \<times> int) list"
  placedLocation :: string
  metric :: nat
  dept :: string

record location =
  name :: string
  capacity :: int
  features :: "string list"
  building :: string

text \<open>\<^verbatim>\<open>new Location({Location: name, Capacity: c, Features: "Virtual"})\<close>.\<close>

definition Location_virtual :: "string \<Rightarrow> int \<Rightarrow> location" where
  "Location_virtual n c =
     \<lparr>name = n, capacity = c, features = [''Virtual''], building = hd (split_space n)\<rparr>"

text \<open>\<^verbatim>\<open>Event.updateIndices\<close> and \<^verbatim>\<open>Event.reset\<close>.\<close>

definition updateIndices :: "event \<Rightarrow> (int \<times> int) list \<Rightarrow> bool \<times> event" where
  "updateIndices ev newIndices =
     (if indices ev \<noteq> [] then (False, ev) else (True, ev\<lparr>indices := newIndices\<rparr>))"

definition reset :: "event \<Rightarrow> event" where
  "reset ev = ev\<lparr>indices := [], placedLocation := [], metric := 0\<rparr>"

text \<open>A grid cell holds \<^verbatim>\<open>0\<close> or a reference to the event that occupies it.\<close>

datatype cell = Free | Ev nat

record schedule =
  locations :: "location list"
  interval :: int
  timeGap :: int
  schStartMin :: int
  schEndMin :: int
  activeDays :: "string list"
  shortDays :: "string list"
  dayIntervals :: int
  weekIntervals :: int
  dayOffsets :: "string \<rightharpoonup> int"
  scheduleGrid :: "string \<rightharpoonup> cell jsarray"
  locationPreferences :: "string \<rightharpoonup> string list"
  metrics :: "nat \<times> nat \<times> nat \<times> nat"
  unscheduledCount :: nat

text \<open>
  \<^verbatim>\<open>this.dayMap[d]\<close>; a name that is not in the table gives \<^verbatim>\<open>undefined\<close>, which as a
  property key is the text \<^verbatim>\<open>"undefined"\<close>.
\<close>

definition dayMap :: "string \<Rightarrow> string" where
  "dayMap d =
     (if d = ''Sunday'' then ''Su'' else if d = ''Monday'' then ''M''
      else if d = ''Tuesday'' then ''T'' else if d = ''Wednesday'' then ''W''
      else if d = ''Thursday'' then ''R'' else if d = ''Friday'' then ''F''
      else if d = ''Saturday'' then ''Sa'' else ''undefined'')"

text \<open>
  \<^verbatim>\<open>new Array(this.weekIntervals).fill(0)\<close>. The length must be an integer from 0 to
  \<open>2^32 - 1\<close>, else \<^verbatim>\<open>RangeError\<close>. With \<open>interval = 0\<close> the division gives
  \<^verbatim>\<open>Infinity\<close>, \<^verbatim>\<open>-Infinity\<close> or \<^verbatim>\<open>NaN\<close>, and so does every product with it: the length
  is then never valid. For such a schedule the integer fields \<open>dayIntervals\<close>,
  \<open>weekIntervals\<close> and \<open>dayOffsets\<close> stand for values that are not numbers, and the
  allocation is the only operation whose result the model gives.
\<close>

definition new_grid :: "int \<Rightarrow> int \<Rightarrow> js_error + cell jsarray" where
  "new_grid ivl w =
     (if ivl = 0 \<or> w < 0 \<or> 2 ^ 32 \<le> w then Inl RangeError
      else Inr (new_Array_fill (nat w) Free))"

text \<open>
  The constructor, after \<^verbatim>\<open>parseInt\<close> and \<^verbatim>\<open>timeToMinutes\<close> have turned its text
  arguments into numbers. Every location gets a fresh grid under its name, a later
  location of the same name replacing the earlier grid.
\<close>

definition Schedule_new ::
  "location list \<Rightarrow> int \<Rightarrow> int \<Rightarrow> string list \<Rightarrow> int \<Rightarrow> int \<Rightarrow> js_error + schedule" where
  "Schedule_new locs startMinutes endMinutes actDays ivl gap =
     (let sd = map dayMap actDays;
          di = floor_div (endMinutes - startMinutes) ivl;
          wi = di * int (length sd);
          offs = fold (\<lambda>(day, index) m. m(day \<mapsto> int index * di)) (zip sd [0..<length sd]) Map.empty
      in if locs = [] then
           Inr \<lparr>locations = locs, interval = ivl, timeGap = gap, schStartMin = startMinutes,
                schEndMin = endMinutes, activeDays = actDays, shortDays = sd, dayIntervals = di,
                weekIntervals = wi, dayOffsets = offs, scheduleGrid = Map.empty,
                locationPreferences = Map.empty, metrics = (0, 0, 0, 0), unscheduledCount = 0\<rparr>
         else case new_grid ivl wi of
           Inl err \<Rightarrow> Inl err
         | Inr g \<Rightarrow>
           Inr \<lparr>locations = locs, interval = ivl, timeGap = gap, schStartMin = startMinutes,
                schEndMin = endMinutes, activeDays = actDays, shortDays = sd, dayIntervals = di,
                weekIntervals = wi, dayOffsets = offs,
                scheduleGrid = fold (\<lambda>loc m. m(name loc \<mapsto> g)) locs Map.empty,
                locationPreferences = Map.empty, metrics = (0, 0, 0, 0), unscheduledCount = 0\<rparr>)"



section \<open>Slot ranges and the placement primitive\<close>

text \<open>
  \<^verbatim>\<open>getIndicesForEvent\<close>: one range \<open>(startIdx, endIdx)\<close>, end exclusive, for every day of
  the event that has an offset, unless the event starts before the schedule or the range
  passes the end of the day.
\<close>

definition getIndicesForEvent :: "schedule \<Rightarrow> time \<Rightarrow> (int \<times> int) list" where
  "getIndicesForEvent sch t =
     (let durationMin = endMin t - startMin t;
          slotsNeeded = ceil_div durationMin (interval sch)
      in concat (map (\<lambda>day.
           case dayOffsets sch day of
             None \<Rightarrow> []
           | Some off \<Rightarrow>
               let timeOffsetMin = startMin t - schStartMin sch
               in if timeOffsetMin < 0 then []
                  else let startIdx = off + floor_div timeOffsetMin (interval sch);
                           endIdx = startIdx + slotsNeeded
                       in if endIdx \<le> off + dayIntervals sch then [(startIdx, endIdx)] else [])
         (days t)))"

text \<open>
  \<^verbatim>\<open>checkTimeGap\<close>: true when a cell within \<open>gapSlots\<close> before \<open>start\<close> (and at a key
  \<open>\<ge> 0\<close>) or within \<open>gapSlots\<close> from \<open>end\<close> on (and below the length) is not \<^verbatim>\<open>0\<close>.
  The two loops return at the first hit, so the result is the disjunction.
\<close>

definition checkTimeGap :: "schedule \<Rightarrow> cell jsarray \<Rightarrow> int \<Rightarrow> int \<Rightarrow> bool" where
  "checkTimeGap sch locationArr start end' =
     (if timeGap sch = 0 then False
      else let gapSlots = ceil_div (timeGap sch) (interval sch)
           in list_ex (\<lambda>i. 0 \<le> start - i \<and> elem locationArr (start - i) \<noteq> Some Free) [1..gapSlots]
              \<or> list_ex (\<lambda>i. end' + i < int (len locationArr) \<and> elem locationArr (end' + i) \<noteq> Some Free)
                   [0..gapSlots - 1])"

text \<open>
  The body of the loop \<^verbatim>\<open>for (let [start, end] of ranges)\<close> under \<^verbatim>\<open>!force\<close>: the range
  is refused when \<^verbatim>\<open>start !== 0 && this.checkTimeGap(grid, start, end)\<close>, or when a cell
  \<open>k\<close> with \<open>start \<le> k < end\<close> is not \<^verbatim>\<open>0\<close>.
\<close>

definition range_refused :: "schedule \<Rightarrow> cell jsarray \<Rightarrow> int \<times> int \<Rightarrow> bool" where
  "range_refused sch grid r =
     (case r of (start, end') \<Rightarrow>
        (start \<noteq> 0 \<and> checkTimeGap sch grid start end')
        \<or> list_ex (\<lambda>k. elem grid k \<noteq> Some Free) [start..end' - 1])"

text \<open>\<^verbatim>\<open>for (let k = start; k < end; k++) grid[k] = event\<close>, for every range.\<close>

definition write_range :: "nat \<Rightarrow> int \<times> int \<Rightarrow> cell jsarray \<Rightarrow> cell jsarray" where
  "write_range e r grid =
     (case r of (start, end') \<Rightarrow> fold (\<lambda>k A. arr_set A k (Some (Ev e))) [start..end' - 1] grid)"

definition write_ranges :: "nat \<Rightarrow> (int \<times> int) list \<Rightarrow> cell jsarray \<Rightarrow> cell jsarray" where
  "write_ranges e ranges grid = fold (write_range e) ranges grid"

text \<open>The schedule together with the event objects it refers to.\<close>

record world =
  sched :: schedule
  objs :: "nat \<Rightarrow> event"

definition set_indices :: "world \<Rightarrow> nat \<Rightarrow> (int \<times> int) list \<Rightarrow> world" where
  "set_indices w e rs = w\<lparr>objs := (objs w)(e := (objs w e)\<lparr>indices := rs\<rparr>)\<rparr>"

text \<open>
  What \<^verbatim>\<open>placeEvent\<close> does when \<^verbatim>\<open>this.scheduleGrid[locName]\<close> is \<^verbatim>\<open>undefined\<close> (a
  location the schedule has no grid for), after the capacity check. Reading or writing a
  cell of \<^verbatim>\<open>undefined\<close>, or reading its length, is a \<^verbatim>\<open>TypeError\<close>: the gap check reads
  the length as soon as \<open>gapSlots \<ge> 1\<close>, the overlap check and the placing loop touch a
  cell as soon as a range is not empty. Ranges that touch nothing are no obstacle.
\<close>

definition touches_undefined_grid :: "schedule \<Rightarrow> bool \<Rightarrow> int \<times> int \<Rightarrow> bool" where
  "touches_undefined_grid sch force r =
     (case r of (start, end') \<Rightarrow>
        (\<not> force \<and> start \<noteq> 0 \<and> timeGap sch \<noteq> 0 \<and> 1 \<le> ceil_div (timeGap sch) (interval sch))
        \<or> start < end')"

text \<open>
  \<^verbatim>\<open>placeEvent(event, location, force)\<close>. The result of \<^verbatim>\<open>event.updateIndices(ranges)\<close>
  is dropped, as in the source.
\<close>

definition placeEvent :: "world \<Rightarrow> nat \<Rightarrow> location \<Rightarrow> bool \<Rightarrow> js_error + (bool \<times> world)" where
  "placeEvent w e loc force =
     (let sch = sched w; ev = objs w e
      in if startMin (timeObj ev) < schStartMin sch \<or> schEndMin sch < endMin (timeObj ev)
         then Inr (False, w)
         else
           let ranges = getIndicesForEvent sch (timeObj ev);
               w1 = w\<lparr>objs := (objs w)(e := snd (updateIndices ev ranges))\<rparr>
           in if ranges = [] then Inr (False, w1)
              else if \<not> force \<and> capacity loc < seats ev then Inr (False, set_indices w1 e [])
              else
                (case scheduleGrid sch (name loc) of
                   None \<Rightarrow>
                     if list_ex (touches_undefined_grid sch force) ranges then Inl TypeError
                     else Inr (True, w1\<lparr>objs := (objs w1)(e := (objs w1 e)\<lparr>placedLocation := name loc\<rparr>)\<rparr>)
                 | Some grid \<Rightarrow>
                     if \<not> force \<and> list_ex (range_refused sch grid) ranges
                     then Inr (False, set_indices w1 e [])
                     else Inr (True,
                       w1\<lparr>sched := sch\<lparr>scheduleGrid :=
                                (scheduleGrid sch)(name loc \<mapsto> write_ranges e ranges grid)\<rparr>,
                          objs := (objs w1)(e := (objs w1 e)\<lparr>placedLocation := name loc\<rparr>)\<rparr>)))"

section \<open>The phases of createSchedule\<close>

text \<open>\<^verbatim>\<open>findLoc\<close> and \<^verbatim>\<open>findLocsByBldg\<close>, the two helpers inside \<^verbatim>\<open>createSchedule\<close>.\<close>

definition findLoc :: "location list \<Rightarrow> string \<Rightarrow> location option" where
  "findLoc locs nm =
     (let parts = split_space nm;
          cleanName = (if part parts 1 = Some ''00'' \<or> part parts 1 = Some ''000''
                       then hd parts @ '' 0'' else nm)
      in find (\<lambda>l. name l = cleanName) locs)"

definition findLocsByBldg :: "location list \<Rightarrow> string \<Rightarrow> location list" where
  "findLocsByBldg locs bldg = filter (\<lambda>l. startsWith (name l) bldg) locs"

text \<open>
  The three work lists are plain arrays until they are shuffled; a shuffled array can hold
  \<^verbatim>\<open>undefined\<close>, and the first property access on it raises \<^verbatim>\<open>TypeError\<close>.

  Phase 1. The accumulator is \<open>(failures, waitingList, finalList)\<close>.
\<close>

fun phase1 ::
  "world \<Rightarrow> nat option list \<Rightarrow> nat \<times> nat list \<times> nat list
     \<Rightarrow> js_error + (world \<times> nat \<times> nat list \<times> nat list)" where
  "phase1 w [] acc = Inr (w, acc)"
| "phase1 w (None # es) acc = Inl TypeError"
| "phase1 w (Some e # es) (failures, waitingList, finalList) =
     (let ev = objs w e
      in if bldgCode ev = ''undefined'' \<or> bldgCode ev = ''nan''
         then phase1 w es (failures, waitingList, finalList @ [e])
         else if roomNumber ev = ''undefined'' \<or> roomNumber ev = ''nan''
         then phase1 w es (failures, waitingList @ [e], finalList)
         else
           (case findLoc (locations (sched w)) (pastLocationString ev) of
              None \<Rightarrow> phase1 w es (failures + 1, waitingList @ [e], finalList)
            | Some loc \<Rightarrow>
                (case placeEvent w e loc False of
                   Inl err \<Rightarrow> Inl err
                 | Inr (ok, w') \<Rightarrow>
                     if ok then phase1 w' es (failures, waitingList, finalList)
                     else phase1 w' es (failures + 1, waitingList @ [e], finalList))))"

text \<open>\<^verbatim>\<open>for (let loc of candidates) if (this.placeEvent(event, loc)) { placed = true; break; }\<close>\<close>

fun try_locs :: "world \<Rightarrow> nat \<Rightarrow> location list \<Rightarrow> js_error + (bool \<times> world)" where
  "try_locs w e [] = Inr (False, w)"
| "try_locs w e (loc # locs) =
     (case placeEvent w e loc False of
        Inl err \<Rightarrow> Inl err
      | Inr (ok, w') \<Rightarrow> if ok then Inr (True, w') else try_locs w' e locs)"

text \<open>Phase 2. The accumulator is \<open>(failures, finalList)\<close>.\<close>

fun phase2 ::
  "world \<Rightarrow> nat option list \<Rightarrow> nat \<times> nat list \<Rightarrow> js_error + (world \<times> nat \<times> nat list)" where
  "phase2 w [] acc = Inr (w, acc)"
| "phase2 w (None # es) acc = Inl TypeError"
| "phase2 w (Some e # es) (failures, finalList) =
     (let bldgLocs = findLocsByBldg (locations (sched w)) (bldgCode (objs w e))
      in if bldgLocs = [] then phase2 w es (failures, finalList @ [e])
         else
           (case try_locs w e bldgLocs of
              Inl err \<Rightarrow> Inl err
            | Inr (placed, w') \<Rightarrow>
                if placed then phase2 w' es (failures, finalList)
                else phase2 w' es (failures + 1, finalList @ [e])))"

text \<open>
  Phase 3: the locations of the preferred buildings of the event's department, then every
  location that is not among them. \<^verbatim>\<open>includes\<close> compares objects; a location record is in
  the list exactly when the object is, since both lists are filters of \<^verbatim>\<open>this.locations\<close>
  by name.
\<close>

definition potentialLocs :: "schedule \<Rightarrow> event \<Rightarrow> location list" where
  "potentialLocs sch ev =
     (let pl = (case locationPreferences sch (dept ev) of
                  None \<Rightarrow> []
                | Some prefBldgs \<Rightarrow> concat (map (findLocsByBldg (locations sch)) prefBldgs));
          remaining = filter (\<lambda>l. l \<notin> set pl) (locations sch)
      in pl @ remaining)"

fun phase3 ::
  "world \<Rightarrow> nat option list \<Rightarrow> nat \<times> nat list \<Rightarrow> js_error + (world \<times> nat \<times> nat list)" where
  "phase3 w [] acc = Inr (w, acc)"
| "phase3 w (None # es) acc = Inl TypeError"
| "phase3 w (Some e # es) (failures, unscheduled) =
     (case try_locs w e (potentialLocs (sched w) (objs w e)) of
        Inl err \<Rightarrow> Inl err
      | Inr (placed, w') \<Rightarrow>
          if placed then phase3 w' es (failures, unscheduled)
          else phase3 w' es (failures + 1, unscheduled @ [e]))"

text \<open>
  \<^verbatim>\<open>addUnscheduledLocation\<close>: the location is pushed, then the grid is allocated (which
  can raise), then the counter goes up.
\<close>

definition addUnscheduledLocation :: "schedule \<Rightarrow> js_error + schedule" where
  "addUnscheduledLocation sch =
     (let nm = ''UN '' @ string_of_nat (unscheduledCount sch);
          loc = Location_virtual nm 9999
      in case new_grid (interval sch) (weekIntervals sch) of
           Inl err \<Rightarrow> Inl err
         | Inr g \<Rightarrow>
             Inr (sch\<lparr>locations := locations sch @ [loc],
                      scheduleGrid := (scheduleGrid sch)(nm \<mapsto> g),
                      unscheduledCount := unscheduledCount sch + 1\<rparr>))"

text \<open>
  Phase 4, the inner loop over \<^verbatim>\<open>currentBatch\<close>: a placed event is filtered out of
  \<^verbatim>\<open>unscheduled\<close>.
\<close>

fun phase4_batch ::
  "world \<Rightarrow> location \<Rightarrow> nat list \<Rightarrow> nat list \<Rightarrow> js_error + (world \<times> nat list)" where
  "phase4_batch w newLoc [] unscheduled = Inr (w, unscheduled)"
| "phase4_batch w newLoc (e # es) unscheduled =
     (case placeEvent w e newLoc False of
        Inl err \<Rightarrow> Inl err
      | Inr (ok, w') \<Rightarrow>
          phase4_batch w' newLoc es (if ok then filter (\<lambda>x. x \<noteq> e) unscheduled else unscheduled))"

lemma phase4_batch_length:
  "phase4_batch w newLoc es un = Inr (w', un') \<Longrightarrow> length un' \<le> length un"
proof (induction es arbitrary: w un)
  case Nil
  then show ?case by simp
next
  case (Cons e es)
  from Cons.prems obtain ok w1 where
    p: "placeEvent w e newLoc False = Inr (ok, w1)" and
    r: "phase4_batch w1 newLoc es (if ok then filter (\<lambda>x. x \<noteq> e) un else un) = Inr (w', un')"
    by (auto split: sum.splits)
  have "length un' \<le> length (if ok then filter (\<lambda>x. x \<noteq> e) un else un)"
    using Cons.IH [OF r] .
  also have "\<dots> \<le> length un" by simp
  finally show ?case .
qed

text \<open>
  Phase 4, the loop \<^verbatim>\<open>while (unscheduled.length > 0)\<close> with its \<^verbatim>\<open>break\<close> when a pass
  removed nothing. The loop goes round again only with a shorter list, which is the
  measure of its termination.
\<close>

function phase4 :: "world \<Rightarrow> nat list \<Rightarrow> js_error + world" where
  "phase4 w unscheduled =
     (if unscheduled = [] then Inr w
      else
        (case addUnscheduledLocation (sched w) of
           Inl err \<Rightarrow> Inl err
         | Inr sch' \<Rightarrow>
             (case phase4_batch (w\<lparr>sched := sch'\<rparr>) (last (locations sch')) unscheduled unscheduled of
                Inl err \<Rightarrow> Inl err
              | Inr (w', unscheduled') \<Rightarrow>
                  if length unscheduled = length unscheduled' then Inr w'
                  else phase4 w' unscheduled')))"
  by pat_completeness auto
termination
proof (relation "measure (\<lambda>(w, un). length un)")
  show "wf (measure (\<lambda>(w, un). length un))" by simp
next
  fix w :: world and unscheduled :: "nat list" and sch' x2 w' unscheduled'
  assume "phase4_batch (w\<lparr>sched := sch'\<rparr>) (last (locations sch')) unscheduled unscheduled = Inr x2"
    and "(w', unscheduled') = x2" and "length unscheduled \<noteq> length unscheduled'"
  then show "((w', unscheduled'), (w, unscheduled)) \<in> measure (\<lambda>(w, un). length un)"
    using phase4_batch_length [of "w\<lparr>sched := sch'\<rparr>" "last (locations sch')" unscheduled unscheduled w' unscheduled']
    by auto
qed

declare phase4.simps [simp del]

text \<open>
  \<^verbatim>\<open>calculateMetrics\<close>: the tier of a placed event, in the order of the source's tests.
  \<^verbatim>\<open>!e.bldgCode\<close> holds of the empty text only.
\<close>

definition tier :: "schedule \<Rightarrow> event \<Rightarrow> nat" where
  "tier sch ev =
     (let parts = split_space (placedLocation ev);
          placedBldg = hd parts;
          placedRoom = part parts 1
      in if bldgCode ev = ''nan'' \<or> bldgCode ev = [] then 1
         else if bldgCode ev = placedBldg \<and> placedRoom = Some (roomNumber ev) then 1
         else if bldgCode ev = placedBldg \<and> (roomNumber ev = ''nan'' \<or> roomNumber ev = []) then 1
         else if bldgCode ev = placedBldg then 2
         else if (case locationPreferences sch (dept ev) of
                    None \<Rightarrow> False | Some bs \<Rightarrow> placedBldg \<in> set bs) then 3
         else 4)"

fun metrics_loop ::
  "schedule \<Rightarrow> nat option list \<Rightarrow> (nat \<Rightarrow> event) \<times> nat \<times> nat \<times> nat \<times> nat
     \<Rightarrow> js_error + ((nat \<Rightarrow> event) \<times> nat \<times> nat \<times> nat \<times> nat)" where
  "metrics_loop sch [] acc = Inr acc"
| "metrics_loop sch (None # es) acc = Inl TypeError"
| "metrics_loop sch (Some e # es) (os, desired, same, pref, wrong) =
     (if placedLocation (os e) = [] then metrics_loop sch es (os, desired, same, pref, wrong)
      else
        let t = tier sch (os e); os' = os(e := (os e)\<lparr>metric := t\<rparr>)
        in if t = 1 then metrics_loop sch es (os', desired + 1, same, pref, wrong)
           else if t = 2 then metrics_loop sch es (os', desired, same + 1, pref, wrong)
           else if t = 3 then metrics_loop sch es (os', desired, same, pref + 1, wrong)
           else metrics_loop sch es (os', desired, same, pref, wrong + 1))"

definition calculateMetrics :: "world \<Rightarrow> nat option list \<Rightarrow> js_error + world" where
  "calculateMetrics w events =
     (case metrics_loop (sched w) events (objs w, 0, 0, 0, 0) of
        Inl err \<Rightarrow> Inl err
      | Inr (os, m) \<Rightarrow> Inr \<lparr>sched = (sched w)\<lparr>metrics := m\<rparr>, objs = os\<rparr>)"

text \<open>
  \<^verbatim>\<open>createSchedule(events, seed)\<close>: the array \<open>events\<close> holds references to event
  objects. The result is \<^verbatim>\<open>{ failures, events }\<close> together with the schedule and the
  events as the run leaves them.
\<close>

record outcome =
  failures :: nat
  events :: "nat option list"
  final :: world

definition createSchedule :: "world \<Rightarrow> nat list \<Rightarrow> int option \<Rightarrow> int \<Rightarrow> js_error + outcome" where
  "createSchedule w evs seed rnd =
     (let rng = Random_new seed rnd;
          w0 = w\<lparr>objs := (\<lambda>i. if i \<in> set evs then reset (objs w i) else objs w i)\<rparr>;
          (rng1, shuffled) = shuffle rng evs
      in case phase1 w0 shuffled (0, [], []) of
           Inl err \<Rightarrow> Inl err
         | Inr (w1, f1, waitingList, finalList) \<Rightarrow>
             let (rng2, waiting) = shuffle rng1 waitingList
             in case phase2 w1 waiting (f1, finalList) of
                  Inl err \<Rightarrow> Inl err
                | Inr (w2, f2, finalList2) \<Rightarrow>
                    let (rng3, finals) = shuffle rng2 finalList2
                    in case phase3 w2 finals (f2, []) of
                         Inl err \<Rightarrow> Inl err
                       | Inr (w3, f3, unscheduled) \<Rightarrow>
                           (case phase4 w3 unscheduled of
                              Inl err \<Rightarrow> Inl err
                            | Inr w4 \<Rightarrow>
                                (case calculateMetrics w4 shuffled of
                                   Inl err \<Rightarrow> Inl err
                                 | Inr w5 \<Rightarrow>
                                     Inr \<lparr>failures = f3, events = shuffled, final = w5\<rparr>)))"


section \<open>What a run reports, and a small schedule to run\<close>

text \<open>
  The outcome of a run as the caller sees it: the failure count, the metrics tuple, and for
  each of the given events its recorded ranges, its placed location and its metric.
\<close>

definition report ::
  "nat list \<Rightarrow> js_error + outcome
     \<Rightarrow> js_error + (nat \<times> (nat \<times> nat \<times> nat \<times> nat) \<times> ((int \<times> int) list \<times> string \<times> nat) list)" where
  "report ids r =
     (case r of
        Inl err \<Rightarrow> Inl err
      | Inr out \<Rightarrow>
          Inr (failures out, metrics (sched (final out)),
               map (\<lambda>i. (indices (objs (final out) i), placedLocation (objs (final out) i),
                          metric (objs (final out) i))) ids))"

text \<open>
  One room \<^verbatim>\<open>B 1\<close> with 30 seats, Mondays from 8:00 to 17:00 in slots of 10 minutes with
  a gap of 10 minutes, and a class of 20 from 9:00 to 10:00 whose past location is that
  room.
\<close>

definition demo_room :: location where
  "demo_room = \<lparr>name = ''B 1'', capacity = 30, features = [], building = ''B''\<rparr>"

definition demo_event :: event where
  "demo_event =
     \<lparr>seats = 20, timeObj = \<lparr>startMin = 540, endMin = 600, days = [''M'']\<rparr>,
      pastLocationString = ''B 1'', bldgCode = ''B'', roomNumber = ''1'', indices = [],
      placedLocation = [], metric = 0, dept = ''CS''\<rparr>"

text \<open>
  The object 2 is a class from 8:00 to 9:00, the first hour of the schedule; every other
  object is the class above.
\<close>

definition demo_early :: event where
  "demo_early = demo_event\<lparr>timeObj := \<lparr>startMin = 480, endMin = 540, days = [''M'']\<rparr>\<rparr>"

definition demo_objs :: "nat \<Rightarrow> event" where
  "demo_objs = (\<lambda>i. if i = 2 then demo_early else demo_event)"

definition demo_schedule :: schedule where
  "demo_schedule = projr (Schedule_new [demo_room] 480 1020 [''Monday''] 10 10)"

definition demo_world :: world where
  "demo_world = \<lparr>sched = demo_schedule, objs = demo_objs\<rparr>"

text \<open>The same world once the event 0 sits in the room, in the cells 6 to 11.\<close>

definition demo_world_1 :: world where
  "demo_world_1 = snd (projr (placeEvent demo_world 0 demo_room False))"




text \<open>
  A configuration with the hours reversed and an interval of \<open>-10\<close>, and a class from
  17:00 to 8:00.
\<close>

definition demo_night :: event where
  "demo_night = demo_event\<lparr>timeObj := \<lparr>startMin = 1020, endMin = 480, days = [''M'']\<rparr>\<rparr>"

definition demo_night_world :: world where
  "demo_night_world =
     \<lparr>sched = projr (Schedule_new [demo_room] 1020 480 [''Monday''] (- 10) 10),
      objs = (\<lambda>i. demo_night)\<rparr>"

text \<open>A schedule whose only room is \<^verbatim>\<open>BX 7\<close>, of the building \<^verbatim>\<open>BX\<close>.\<close>

definition demo_annex :: location where
  "demo_annex = \<lparr>name = ''BX 7'', capacity = 30, features = [], building = ''BX''\<rparr>"

definition demo_annex_world :: world where
  "demo_annex_world =
     \<lparr>sched = projr (Schedule_new [demo_annex] 480 1020 [''Monday''] 10 10), objs = demo_objs\<rparr>"



section \<open>Cells an event occupies and cells it has recorded\<close>










section \<open>The generator stays below its modulus minus one\<close>










text \<open>
  In exact arithmetic the state 230538014 would be followed by \<open>m - 1\<close>. The product
  \<open>a * 230538014\<close> is beyond \<open>2^53\<close>, the sum is rounded to a multiple of 32, and the
  generator returns 0 there.
\<close>

lemma nextInt_exact_predecessor:
  "(Random_a * 230538014 + Random_c) mod Random_m = Random_m - 1
   \<and> fst (nextInt \<lparr>state = 230538014\<rparr>) = 0"
  by code_simp












section \<open>Seeds and reproducibility\<close>

lemma demo_run_draw_1:
  "report [0, 1] (createSchedule demo_world [0, 1] (Some 0) 1)
     = Inr (3, (1, 0, 0, 1), [([(6, 12)], ''B 1'', 1), ([(6, 12)], ''UN 0'', 4)])"
  by code_simp

lemma demo_run_draw_2:
  "report [0, 1] (createSchedule demo_world [0, 1] (Some 0) 2)
     = Inr (3, (1, 0, 0, 1), [([(6, 12)], ''UN 0'', 4), ([(6, 12)], ''B 1'', 1)])"
  by code_simp

text \<open>
  C2, as amended. With a seed other than 0 the result of a run does not depend on the one
  value the environment supplies: two runs on the same schedule, events and seed return the
  same outcome, whole (every event's ranges, location and metric, the failure count and the
  metrics among it). Everything else in \<^verbatim>\<open>createSchedule\<close> is a function of its
  arguments.
\<close>

theorem createSchedule_seeded_deterministic:
  "seed \<noteq> 0 \<Longrightarrow> createSchedule w evs (Some seed) r1 = createSchedule w evs (Some seed) r2"
  by (simp add: createSchedule_def Random_new_def)

theorem createSchedule_seeded_deterministic_witness:
  "(5::int) \<noteq> 0
   \<and> createSchedule demo_world [0, 1] (Some 5) 1 = createSchedule demo_world [0, 1] (Some 5) 2"
  using createSchedule_seeded_deterministic [of 5 demo_world "[0, 1]" 1 2] by simp

text \<open>
  C2 as stated fails for the supplied seed 0: two runs on the same input, in which the
  environment's draw is 1 and 2, give the room to different events.
\<close>

theorem createSchedule_seed_zero_differs:
  "report [0, 1] (createSchedule demo_world [0, 1] (Some 0) 1)
     \<noteq> report [0, 1] (createSchedule demo_world [0, 1] (Some 0) 2)"
  unfolding demo_run_draw_1 demo_run_draw_2 by simp

text \<open>
  C10. A generator built with seed 0 does not take 0 as its state: it is the generator
  built with no seed, its state is the environment's draw, and two draws give two
  different schedules on the same input.
\<close>

theorem Random_new_seed_zero:
  "Random_new (Some 0) rnd = Random_new None rnd
   \<and> state (Random_new (Some 0) rnd) = rnd
   \<and> fst (nextInt (Random_new (Some 0) 1)) \<noteq> fst (nextInt \<lparr>state = 0\<rparr>)
   \<and> map_sum id events (createSchedule demo_world [0, 1] (Some 0) 1)
       \<noteq> map_sum id events (createSchedule demo_world [0, 1] (Some 0) 2)"
proof -
  have a: "Random_new (Some 0) rnd = Random_new None rnd"
    and a': "state (Random_new (Some 0) rnd) = rnd"
    by (simp_all add: Random_new_def)
  have b: "fst (nextInt (Random_new (Some 0) 1)) \<noteq> fst (nextInt \<lparr>state = 0\<rparr>)"
    by (simp add: Random_new_def nextInt_def round53_def js_rem_def
        Random_a_def Random_c_def Random_m_def)
  have c1: "map_sum id events (createSchedule demo_world [0, 1] (Some 0) 1) = Inr [Some 0, Some 1]"
    by code_simp
  have c2: "map_sum id events (createSchedule demo_world [0, 1] (Some 0) 2) = Inr [Some 1, Some 0]"
    by code_simp
  have c: "map_sum id events (createSchedule demo_world [0, 1] (Some 0) 1)
       \<noteq> map_sum id events (createSchedule demo_world [0, 1] (Some 0) 2)"
    unfolding c1 c2 by simp
  show ?thesis using a a' b c by (intro conjI)
qed


section \<open>The placement primitive\<close>

lemma indices_clear_idem: "indices ev = [] \<Longrightarrow> ev\<lparr>indices := []\<rparr> = ev"
  by (cases ev) simp

lemma placeEvent_failure_unchanged:
  assumes "placeEvent w e loc force = Inr (False, w')" and "indices (objs w e) = []"
  shows "w' = w"
  using assms
  by (auto simp: placeEvent_def Let_def updateIndices_def set_indices_def indices_clear_idem
      split: if_splits option.splits)

lemma sum_pair_collapse: "\<not> isl r \<Longrightarrow> r = Inr (fst (projr r), snd (projr r))"
  by (cases r) auto

text \<open>
  C6. A call of \<^verbatim>\<open>placeEvent\<close> that returns \<^verbatim>\<open>false\<close> on an event whose recorded list
  was empty leaves everything as it was: the grids, the event's placed location, its
  (empty) recorded list, and in fact the whole world, with or without \<^verbatim>\<open>force\<close>.
\<close>

theorem placeEvent_failure_transactional:
  "placeEvent w e loc force = Inr (False, w') \<Longrightarrow> indices (objs w e) = [] \<Longrightarrow>
     scheduleGrid (sched w') = scheduleGrid (sched w)
     \<and> placedLocation (objs w' e) = placedLocation (objs w e)
     \<and> indices (objs w' e) = []
     \<and> w' = w"
  using placeEvent_failure_unchanged [of w e loc force w'] by simp

lemma demo_second_refused:
  "\<not> isl (placeEvent demo_world_1 1 demo_room False)
   \<and> \<not> fst (projr (placeEvent demo_world_1 1 demo_room False))
   \<and> indices (objs demo_world_1 1) = []"
  by code_simp

theorem placeEvent_failure_transactional_witness:
  "placeEvent demo_world_1 1 demo_room False
     = Inr (False, snd (projr (placeEvent demo_world_1 1 demo_room False)))
   \<and> indices (objs demo_world_1 1) = []
   \<and> scheduleGrid (sched (snd (projr (placeEvent demo_world_1 1 demo_room False))))
       = scheduleGrid (sched demo_world_1)
   \<and> placedLocation (objs (snd (projr (placeEvent demo_world_1 1 demo_room False))) 1)
       = placedLocation (objs demo_world_1 1)
   \<and> indices (objs (snd (projr (placeEvent demo_world_1 1 demo_room False))) 1) = []
   \<and> snd (projr (placeEvent demo_world_1 1 demo_room False)) = demo_world_1"
proof -
  have r: "placeEvent demo_world_1 1 demo_room False
     = Inr (False, snd (projr (placeEvent demo_world_1 1 demo_room False)))"
    using demo_second_refused sum_pair_collapse [of "placeEvent demo_world_1 1 demo_room False"]
    by simp
  have i: "indices (objs demo_world_1 1) = []" using demo_second_refused by simp
  show ?thesis using placeEvent_failure_transactional [OF r i] r i by simp
qed











section \<open>The configuration is not validated\<close>

text \<open>
  C4, as amended. The constructor has no test of the interval. With an interval \<open>\<le> 0\<close>,
  hours in their usual order, at least one active day and at least one location, the week
  has a negative or no number of slots and the allocation of the first grid raises
  \<^verbatim>\<open>RangeError\<close>, which is how such a configuration is turned down before a run.
\<close>

theorem Schedule_new_nonpositive_interval:
  assumes "ivl \<le> 0" "locs \<noteq> []" "actDays \<noteq> []" "startMinutes < endMinutes"
  shows "Schedule_new locs startMinutes endMinutes actDays ivl gap = Inl RangeError"
proof (cases "ivl = 0")
  case True
  then show ?thesis using assms by (simp add: Schedule_new_def Let_def new_grid_def)
next
  case False
  then have "ivl < 0" using assms by simp
  then have "(endMinutes - startMinutes) div ivl < 0"
    using assms by (simp add: neg_imp_zdiv_neg_iff)
  moreover have "0 < int (length actDays)" using assms by simp
  ultimately have "(endMinutes - startMinutes) div ivl * int (length actDays) < 0"
    by (simp add: mult_less_0_iff)
  then show ?thesis using assms
    by (simp add: Schedule_new_def Let_def new_grid_def floor_div_def)
qed

theorem Schedule_new_nonpositive_interval_witness:
  "(0::int) \<le> 0 \<and> [demo_room] \<noteq> [] \<and> [''Monday''] \<noteq> [] \<and> (480::int) < 1020
   \<and> Schedule_new [demo_room] 480 1020 [''Monday''] 0 10 = Inl RangeError"
  using Schedule_new_nonpositive_interval [of 0 "[demo_room]" "[''Monday'']" 480 1020 10]
  by simp

text \<open>
  C4 as stated fails: with the hours reversed the interval \<open>-10\<close> gives 54 slots, the
  constructor returns a schedule, and the run places the class in the cells 0 to 53.
\<close>

theorem Schedule_new_accepts_negative_interval:
  "\<not> isl (Schedule_new [demo_room] 1020 480 [''Monday''] (- 10) 10)
   \<and> report [0] (createSchedule demo_night_world [0] (Some 1) 0)
      = Inr (0, (1, 0, 0, 0), [([(0, 54)], ''B 1'', 1)])"
  by code_simp

section \<open>Same-building candidates\<close>

text \<open>
  C5. \<^verbatim>\<open>findLocsByBldg\<close> keeps the locations whose name starts with the building code,
  which is not the set of locations of that building: for the building \<^verbatim>\<open>B\<close> it
  returns the room \<^verbatim>\<open>BX 7\<close> of the building \<^verbatim>\<open>BX\<close>. A run places the class there in
  phase 2 (one failure, the one of phase 1), and \<^verbatim>\<open>calculateMetrics\<close>, which compares
  building codes for equality, then counts it in the last tier.
\<close>

theorem findLocsByBldg_prefix_match:
  "findLocsByBldg [demo_annex] (bldgCode demo_event) = [demo_annex]
   \<and> building demo_annex \<noteq> bldgCode demo_event
   \<and> report [0] (createSchedule demo_annex_world [0] (Some 1) 0)
       = Inr (1, (0, 0, 0, 1), [([(6, 12)], ''BX 7'', 4)])"
  by code_simp


section \<open>The overflow loop\<close>

lemma placeEvent_sched_fields:
  assumes "placeEvent w e loc force = Inr (ok, w')"
  shows "unscheduledCount (sched w') = unscheduledCount (sched w)
     \<and> locations (sched w') = locations (sched w)"
  using assms
  by (auto simp: placeEvent_def Let_def set_indices_def split: if_splits option.splits)

lemma phase4_batch_fields:
  "phase4_batch w newLoc es un = Inr (w', un') \<Longrightarrow>
     unscheduledCount (sched w') = unscheduledCount (sched w)
     \<and> locations (sched w') = locations (sched w)"
proof (induction es arbitrary: w un)
  case Nil
  then show ?case by simp
next
  case (Cons e es)
  from Cons.prems obtain ok w1 where
    p: "placeEvent w e newLoc False = Inr (ok, w1)" and
    r: "phase4_batch w1 newLoc es (if ok then filter (\<lambda>x. x \<noteq> e) un else un) = Inr (w', un')"
    by (auto split: sum.splits)
  show ?case using Cons.IH [OF r] placeEvent_sched_fields [OF p] by simp
qed

lemma addUnscheduledLocation_fields:
  "addUnscheduledLocation sch = Inr sch' \<Longrightarrow>
     unscheduledCount sch' = unscheduledCount sch + 1
     \<and> length (locations sch') = length (locations sch) + 1"
  by (auto simp: addUnscheduledLocation_def Let_def split: sum.splits)

lemma phase4_unfold:
  "un \<noteq> [] \<Longrightarrow> phase4 w un =
     (case addUnscheduledLocation (sched w) of
           Inl err \<Rightarrow> Inl err
         | Inr sch' \<Rightarrow>
             (case phase4_batch (w\<lparr>sched := sch'\<rparr>) (last (locations sch')) un un of
                Inl err \<Rightarrow> Inl err
              | Inr (w', unscheduled') \<Rightarrow>
                  if length un = length unscheduled' then Inr w'
                  else phase4 w' unscheduled'))"
  by (subst phase4.simps) (simp only: if_False)

text \<open>
  One round of the loop is one call of \<^verbatim>\<open>addUnscheduledLocation\<close>, which appends one
  location and adds one to \<^verbatim>\<open>unscheduledCount\<close>; nothing else changes either. The
  number of rounds is therefore the growth of the counter.
\<close>

lemma phase4_count:
  "phase4 w un = Inr w' \<Longrightarrow>
     unscheduledCount (sched w) \<le> unscheduledCount (sched w')
     \<and> unscheduledCount (sched w') \<le> unscheduledCount (sched w) + length un
     \<and> length (locations (sched w')) + unscheduledCount (sched w)
         = length (locations (sched w)) + unscheduledCount (sched w')"
proof (induction w un arbitrary: w' rule: phase4.induct)
  case (1 w un)
  show ?case
  proof (cases "un = []")
    case True
    then show ?thesis using "1.prems" by (simp add: phase4.simps)
  next
    case False
    have eq: "(case addUnscheduledLocation (sched w) of
           Inl err \<Rightarrow> Inl err
         | Inr sch' \<Rightarrow>
             (case phase4_batch (w\<lparr>sched := sch'\<rparr>) (last (locations sch')) un un of
                Inl err \<Rightarrow> Inl err
              | Inr (w', unscheduled') \<Rightarrow>
                  if length un = length unscheduled' then Inr w'
                  else phase4 w' unscheduled')) = Inr w'"
      using "1.prems" phase4_unfold [OF False] by simp
    obtain sch1 where a: "addUnscheduledLocation (sched w) = Inr sch1"
      using eq by (cases "addUnscheduledLocation (sched w)") simp_all
    obtain w1 un1 where
      b: "phase4_batch (w\<lparr>sched := sch1\<rparr>) (last (locations sch1)) un un = Inr (w1, un1)"
      using eq a by (cases "phase4_batch (w\<lparr>sched := sch1\<rparr>) (last (locations sch1)) un un") auto
    have c: "if length un = length un1 then w' = w1 else phase4 w1 un1 = Inr w'"
      using eq a b by (simp split: if_splits)
    have f1: "unscheduledCount sch1 = unscheduledCount (sched w) + 1"
      "length (locations sch1) = length (locations (sched w)) + 1"
      using addUnscheduledLocation_fields [OF a] by simp_all
    have f2: "unscheduledCount (sched w1) = unscheduledCount sch1"
      "locations (sched w1) = locations sch1"
      using phase4_batch_fields [OF b] by simp_all
    have le: "length un1 \<le> length un" using phase4_batch_length [OF b] .
    have pos: "1 \<le> length un" using False by (cases un) simp_all
    show ?thesis
    proof (cases "length un = length un1")
      case True
      then have "w' = w1" using c by simp
      then show ?thesis using f1 f2 pos by simp
    next
      case neq: False
      then have r: "phase4 w1 un1 = Inr w'" using c by simp
      have ih: "unscheduledCount (sched w1) \<le> unscheduledCount (sched w')
         \<and> unscheduledCount (sched w') \<le> unscheduledCount (sched w1) + length un1
         \<and> length (locations (sched w')) + unscheduledCount (sched w1)
             = length (locations (sched w1)) + unscheduledCount (sched w')"
        using "1.IH" [OF False a b _ neq r] by simp
      show ?thesis using ih f1 f2 le neq by simp
    qed
  qed
qed

text \<open>
  An error of the loop can only come from its first round: the allocation of the overflow
  grid depends on the interval and the number of slots of the week alone, which no round
  changes, and placing into the location just added finds its grid.
\<close>

lemma placeEvent_keeps_config:
  assumes "placeEvent w e loc force = Inr (ok, w')"
  shows "interval (sched w') = interval (sched w)
     \<and> weekIntervals (sched w') = weekIntervals (sched w)
     \<and> (\<forall>L. scheduleGrid (sched w) L \<noteq> None \<longrightarrow> scheduleGrid (sched w') L \<noteq> None)"
  using assms
  by (auto simp: placeEvent_def Let_def set_indices_def split: if_splits option.splits)

lemma placeEvent_no_error:
  assumes "scheduleGrid (sched w) (name loc) \<noteq> None"
  shows "\<exists>ok w'. placeEvent w e loc force = Inr (ok, w')"
  using assms by (auto simp: placeEvent_def Let_def)

lemma phase4_batch_no_error:
  assumes "scheduleGrid (sched w) (name newLoc) \<noteq> None"
  shows "\<exists>w' un'. phase4_batch w newLoc es un = Inr (w', un')"
  using assms
proof (induction es arbitrary: w un)
  case Nil
  then show ?case by simp
next
  case (Cons e es)
  obtain ok w1 where p: "placeEvent w e newLoc False = Inr (ok, w1)"
    using placeEvent_no_error [OF Cons.prems] by blast
  have "scheduleGrid (sched w1) (name newLoc) \<noteq> None"
    using placeEvent_keeps_config [OF p] Cons.prems by blast
  then show ?case using Cons.IH [of w1] p by simp
qed

lemma phase4_batch_keeps_config:
  "phase4_batch w newLoc es un = Inr (w', un') \<Longrightarrow>
     interval (sched w') = interval (sched w) \<and> weekIntervals (sched w') = weekIntervals (sched w)"
proof (induction es arbitrary: w un)
  case Nil
  then show ?case by simp
next
  case (Cons e es)
  from Cons.prems obtain ok w1 where
    p: "placeEvent w e newLoc False = Inr (ok, w1)" and
    r: "phase4_batch w1 newLoc es (if ok then filter (\<lambda>x. x \<noteq> e) un else un) = Inr (w', un')"
    by (auto split: sum.splits)
  show ?case using Cons.IH [OF r] placeEvent_keeps_config [OF p] by simp
qed

lemma addUnscheduledLocation_Inr:
  assumes "addUnscheduledLocation sch = Inr sch'"
  shows "scheduleGrid sch' (name (last (locations sch'))) \<noteq> None
     \<and> interval sch' = interval sch \<and> weekIntervals sch' = weekIntervals sch
     \<and> (\<exists>g. new_grid (interval sch) (weekIntervals sch) = Inr g)"
  using assms
  by (auto simp: addUnscheduledLocation_def Let_def Location_virtual_def split: sum.splits)

lemma addUnscheduledLocation_Inl:
  assumes "addUnscheduledLocation sch = Inl err"
  shows "new_grid (interval sch) (weekIntervals sch) = Inl err"
  using assms
  by (auto simp: addUnscheduledLocation_def Let_def split: sum.splits)

lemma phase4_error:
  "phase4 w un = Inl err \<Longrightarrow> un \<noteq> [] \<and> addUnscheduledLocation (sched w) = Inl err"
proof (induction w un rule: phase4.induct)
  case (1 w un)
  have ne: "un \<noteq> []" using "1.prems" by (auto simp: phase4.simps)
  have eq: "(case addUnscheduledLocation (sched w) of
           Inl err \<Rightarrow> Inl err
         | Inr sch' \<Rightarrow>
             (case phase4_batch (w\<lparr>sched := sch'\<rparr>) (last (locations sch')) un un of
                Inl err \<Rightarrow> Inl err
              | Inr (w', unscheduled') \<Rightarrow>
                  if length un = length unscheduled' then Inr w'
                  else phase4 w' unscheduled')) = Inl err"
    using "1.prems" phase4_unfold [OF ne] by simp
  show ?case
  proof (cases "addUnscheduledLocation (sched w)")
    case (Inl err')
    then show ?thesis using eq ne by simp
  next
    case (Inr sch1)
    have k: "scheduleGrid sch1 (name (last (locations sch1))) \<noteq> None"
      "interval sch1 = interval (sched w)" "weekIntervals sch1 = weekIntervals (sched w)"
      "\<exists>g. new_grid (interval (sched w)) (weekIntervals (sched w)) = Inr g"
      using addUnscheduledLocation_Inr [OF Inr] by simp_all
    obtain w1 un1 where
      b: "phase4_batch (w\<lparr>sched := sch1\<rparr>) (last (locations sch1)) un un = Inr (w1, un1)"
      using phase4_batch_no_error [of "w\<lparr>sched := sch1\<rparr>" "last (locations sch1)" un un] k(1)
      by auto
    have neq: "length un \<noteq> length un1" and r: "phase4 w1 un1 = Inl err"
      using eq Inr b by (auto split: if_splits)
    have "addUnscheduledLocation (sched w1) = Inl err"
      using "1.IH" [OF ne Inr b _ neq r] by simp
    then have "new_grid (interval (sched w1)) (weekIntervals (sched w1)) = Inl err"
      by (rule addUnscheduledLocation_Inl)
    moreover have "interval (sched w1) = interval (sched w)"
      "weekIntervals (sched w1) = weekIntervals (sched w)"
      using phase4_batch_keeps_config [OF b] k(2,3) by simp_all
    ultimately show ?thesis using k(4) by auto
  qed
qed

text \<open>
  C8. The loop of phase 4 is a total function: it goes round again only when the pass
  has made the list of unscheduled events shorter, and otherwise stops (the list is empty,
  the pass removed nothing, or the allocation raised). On every input it ends in one of
  two ways. Either it returns, after at most as many rounds as there were unscheduled
  events after phase 3: the counter of overflow locations has grown by at most that
  number, and one location was appended for each round. Or the allocation of its first
  round raises, and the loop is left at once.
\<close>

theorem phase4_rounds_bounded:
  "(\<exists>w'. phase4 w un = Inr w'
      \<and> unscheduledCount (sched w') - unscheduledCount (sched w) \<le> length un
      \<and> length (locations (sched w')) - length (locations (sched w))
          = unscheduledCount (sched w') - unscheduledCount (sched w))
   \<or> (\<exists>err. phase4 w un = Inl err \<and> un \<noteq> [] \<and> addUnscheduledLocation (sched w) = Inl err)"
proof (cases "phase4 w un")
  case (Inl err)
  then show ?thesis using phase4_error [of w un err] by simp
next
  case (Inr w')
  then show ?thesis using phase4_count [of w un w'] by auto
qed

lemma demo_phase4:
  "\<not> isl (phase4 demo_world_1 [1])
   \<and> unscheduledCount (sched (projr (phase4 demo_world_1 [1]))) = 1
   \<and> unscheduledCount (sched demo_world_1) = 0
   \<and> length (locations (sched (projr (phase4 demo_world_1 [1])))) = 2
   \<and> length (locations (sched demo_world_1)) = 1"
  by code_simp

theorem phase4_rounds_bounded_witness:
  "phase4 demo_world_1 [1] = Inr (projr (phase4 demo_world_1 [1]))
   \<and> unscheduledCount (sched (projr (phase4 demo_world_1 [1]))) - unscheduledCount (sched demo_world_1)
       \<le> length [1::nat]
   \<and> length (locations (sched (projr (phase4 demo_world_1 [1])))) - length (locations (sched demo_world_1))
       = unscheduledCount (sched (projr (phase4 demo_world_1 [1]))) - unscheduledCount (sched demo_world_1)"
proof -
  have r: "phase4 demo_world_1 [1] = Inr (projr (phase4 demo_world_1 [1]))"
    using demo_phase4 by (cases "phase4 demo_world_1 [1]") simp_all
  show ?thesis using phase4_rounds_bounded [of demo_world_1 "[1]"] r by auto
qed

section \<open>No two events in one cell\<close>



































end
